theory Spec2Isabelle
  imports Main "HOL-Library.Word"
begin

unbundle bit_operations_syntax

section \<open>The Sharp LS037V7DW06 panel driver\<close>

text \<open>
  A shallow embedding of \<^verbatim>\<open>sharp_ls_enable\<close> and \<^verbatim>\<open>sharp_ls_disable\<close> of
  \<^verbatim>\<open>ls037v7dw06.c\<close>. The two functions are straight-line code over a panel structure:
  they drive three GPIO lines, a regulator, an I2C register channel and a backlight
  through kernel calls and leave at the first call that returns a nonzero code.
\<close>

subsection \<open>Constants\<close>

text \<open>The four opcodes, with the values of the \<^verbatim>\<open>#define\<close> lines of the driver.\<close>

definition LS037V7DW06_SLEEP_OFF :: "8 word" where
  "LS037V7DW06_SLEEP_OFF = 0x10"

definition LS037V7DW06_SLEEP_ON :: "8 word" where
  "LS037V7DW06_SLEEP_ON = 0x11"

definition LS037V7DW06_DISP_OFF :: "8 word" where
  "LS037V7DW06_DISP_OFF = 0x28"

definition LS037V7DW06_DISP_ON :: "8 word" where
  "LS037V7DW06_DISP_ON = 0x29"

text \<open>
  Constants of the kernel headers the driver includes (\<^verbatim>\<open>linux/backlight.h\<close>,
  \<^verbatim>\<open>linux/fb.h\<close>): \<^verbatim>\<open>BL_CORE_FBBLANK\<close> is \<^verbatim>\<open>(1 << 1)\<close>, \<^verbatim>\<open>FB_BLANK_UNBLANK\<close> is 0 and
  \<^verbatim>\<open>FB_BLANK_POWERDOWN\<close> is 4.
\<close>

definition BL_CORE_FBBLANK :: "32 word" where
  "BL_CORE_FBBLANK = push_bit 1 1"

definition FB_BLANK_UNBLANK :: int where
  "FB_BLANK_UNBLANK = 0"

definition FB_BLANK_POWERDOWN :: int where
  "FB_BLANK_POWERDOWN = 4"

subsection \<open>Data\<close>

text \<open>
  \<^verbatim>\<open>struct backlight_properties\<close>, the fields the driver writes: \<^verbatim>\<open>props.brightness\<close>,
  \<^verbatim>\<open>props.max_brightness\<close>, \<^verbatim>\<open>props.power\<close> (all \<^verbatim>\<open>int\<close>) and \<^verbatim>\<open>props.state\<close>
  (\<^verbatim>\<open>unsigned int\<close>).
\<close>

record backlight_properties =
  props_brightness :: int
  props_max_brightness :: int
  props_power :: int
  props_state :: "32 word"

text \<open>The three lines the probe function requests under three different names.\<close>

datatype gpio_desc = Resb | Clk | I2ciso

text \<open>
  The kernel calls the two functions make, each with its arguments and, where the call
  returns a code, the code it returned. \<^verbatim>\<open>backlight_update_status\<close> is recorded with the
  properties it pushes; the driver drops its return value.
\<close>

datatype call =
    GpiodSetValue gpio_desc bool
  | RegulatorEnable int
  | RegulatorDisable int
  | Msleep nat
  | I2cWriteByteData "8 word" "8 word" int
  | BacklightUpdateStatus backlight_properties

text \<open>
  \<^verbatim>\<open>struct panel_ls037v7dw06\<close>. The flag \<^verbatim>\<open>enabled\<close> is the field of the structure. Each
  handle field stands for the resource behind the pointer: a line by the level last
  driven on it, the backlight by its properties. The handles are taken to be valid and
  the three lines distinct, as the probe function obtains them. \<^verbatim>\<open>calls\<close> is the record
  of the kernel calls made so far, oldest first; the regulator and the I2C client are
  seen through it only. \<^verbatim>\<open>driver_data\<close> is read by neither function and is left out.
\<close>

record panel_ls037v7dw06 =
  enabled :: bool
  resb_gpio :: bool
  clk_gpio :: bool
  i2ciso_gpio :: bool
  backlight :: backlight_properties
  calls :: "call list"

text \<open>
  The kernel side is a parameter: \<open>K n\<close> is the code the kernel returns to the call the
  driver makes when \<open>n\<close> calls have been made before it. Every behaviour of the regulator
  and of the bus during one run is some such \<open>K\<close>.
\<close>

type_synonym kernel = "nat \<Rightarrow> int"

subsection \<open>Kernel calls\<close>

fun set_line :: "gpio_desc \<Rightarrow> bool \<Rightarrow> panel_ls037v7dw06 \<Rightarrow> panel_ls037v7dw06" where
  "set_line Resb v p = p\<lparr>resb_gpio := v\<rparr>"
| "set_line Clk v p = p\<lparr>clk_gpio := v\<rparr>"
| "set_line I2ciso v p = p\<lparr>i2ciso_gpio := v\<rparr>"

definition gpiod_set_value_cansleep ::
  "gpio_desc \<Rightarrow> bool \<Rightarrow> panel_ls037v7dw06 \<Rightarrow> panel_ls037v7dw06" where
  "gpiod_set_value_cansleep g v p =
     set_line g v (p\<lparr>calls := calls p @ [GpiodSetValue g v]\<rparr>)"

definition msleep :: "nat \<Rightarrow> panel_ls037v7dw06 \<Rightarrow> panel_ls037v7dw06" where
  "msleep ms p = p\<lparr>calls := calls p @ [Msleep ms]\<rparr>"

definition regulator_enable :: "kernel \<Rightarrow> panel_ls037v7dw06 \<Rightarrow> int \<times> panel_ls037v7dw06" where
  "regulator_enable K p =
     (let r = K (length (calls p)) in (r, p\<lparr>calls := calls p @ [RegulatorEnable r]\<rparr>))"

definition regulator_disable :: "kernel \<Rightarrow> panel_ls037v7dw06 \<Rightarrow> int \<times> panel_ls037v7dw06" where
  "regulator_disable K p =
     (let r = K (length (calls p)) in (r, p\<lparr>calls := calls p @ [RegulatorDisable r]\<rparr>))"

definition i2c_smbus_write_byte_data ::
  "kernel \<Rightarrow> 8 word \<Rightarrow> 8 word \<Rightarrow> panel_ls037v7dw06 \<Rightarrow> int \<times> panel_ls037v7dw06" where
  "i2c_smbus_write_byte_data K command val p =
     (let r = K (length (calls p))
      in (r, p\<lparr>calls := calls p @ [I2cWriteByteData command val r]\<rparr>))"

definition backlight_update_status :: "panel_ls037v7dw06 \<Rightarrow> panel_ls037v7dw06" where
  "backlight_update_status p = p\<lparr>calls := calls p @ [BacklightUpdateStatus (backlight p)]\<rparr>"

subsection \<open>The two sequences\<close>

definition sharp_ls_enable :: "kernel \<Rightarrow> panel_ls037v7dw06 \<Rightarrow> int \<times> panel_ls037v7dw06" where
  "sharp_ls_enable K panel =
     (let p1 = gpiod_set_value_cansleep Resb False panel;
          p2 = gpiod_set_value_cansleep I2ciso False p1;
          (retval, p3) = regulator_enable K p2
      in if retval \<noteq> 0 then (retval, p3)
      else
        let p4 = msleep 10 p3;
            p5 = gpiod_set_value_cansleep Resb True p4;
            p6 = msleep 1 p5;
            (retval, p7) = i2c_smbus_write_byte_data K LS037V7DW06_SLEEP_ON 0x00 p6
        in if retval \<noteq> 0 then (retval, p7)
        else
          let p8 = msleep 100 p7;
              (retval, p9) = i2c_smbus_write_byte_data K LS037V7DW06_DISP_ON 0x00 p8
          in if retval \<noteq> 0 then (retval, p9)
          else
            let p10 = gpiod_set_value_cansleep Clk True p9;
                p11 = p10\<lparr>backlight := (backlight p10)
                        \<lparr>props_state := props_state (backlight p10) AND NOT BL_CORE_FBBLANK\<rparr>\<rparr>;
                p12 = p11\<lparr>backlight := (backlight p11)\<lparr>props_power := FB_BLANK_UNBLANK\<rparr>\<rparr>;
                p13 = p12\<lparr>backlight := (backlight p12)
                        \<lparr>props_brightness := props_max_brightness (backlight p12)\<rparr>\<rparr>;
                p14 = backlight_update_status p13;
                p15 = p14\<lparr>enabled := True\<rparr>
            in (retval, p15))"

definition sharp_ls_disable :: "kernel \<Rightarrow> panel_ls037v7dw06 \<Rightarrow> int \<times> panel_ls037v7dw06" where
  "sharp_ls_disable K panel =
     (let p1 = panel\<lparr>backlight := (backlight panel)\<lparr>props_power := FB_BLANK_POWERDOWN\<rparr>\<rparr>;
          p2 = p1\<lparr>backlight := (backlight p1)
                 \<lparr>props_state := props_state (backlight p1) OR BL_CORE_FBBLANK\<rparr>\<rparr>;
          p3 = p2\<lparr>backlight := (backlight p2)\<lparr>props_brightness := 0\<rparr>\<rparr>;
          p4 = backlight_update_status p3;
          p5 = gpiod_set_value_cansleep Clk False p4;
          p6 = msleep 1 p5;
          (retval, p7) = i2c_smbus_write_byte_data K LS037V7DW06_DISP_OFF 0x00 p6
      in if retval \<noteq> 0 then (retval, p7)
      else
        let p8 = msleep 20 p7;
            (retval, p9) = i2c_smbus_write_byte_data K LS037V7DW06_SLEEP_OFF 0x00 p8
        in if retval \<noteq> 0 then (retval, p9)
        else
          let p10 = msleep 100 p9;
              p11 = gpiod_set_value_cansleep Resb False p10;
              p12 = msleep 1 p11;
              (retval, p13) = regulator_disable K p12
          in if retval \<noteq> 0 then (retval, p13)
          else (retval, p13))"

subsection \<open>Reading a run\<close>

text \<open>The calls a function added: what the record holds beyond what it held at entry.\<close>

definition new_calls :: "panel_ls037v7dw06 \<Rightarrow> panel_ls037v7dw06 \<Rightarrow> call list" where
  "new_calls p p' = drop (length (calls p)) (calls p')"

text \<open>
  Everything of the structure but the flag: the three lines, the backlight properties and
  the kernel calls made.
\<close>

definition resources ::
  "panel_ls037v7dw06 \<Rightarrow> bool \<times> bool \<times> bool \<times> backlight_properties \<times> call list" where
  "resources p = (resb_gpio p, clk_gpio p, i2ciso_gpio p, backlight p, calls p)"

text \<open>The register addresses written over the bus, in order.\<close>

fun i2c_commands :: "call list \<Rightarrow> 8 word list" where
  "i2c_commands [] = []"
| "i2c_commands (I2cWriteByteData command val r # cs) = command # i2c_commands cs"
| "i2c_commands (c # cs) = i2c_commands cs"

text \<open>The durations slept, in order.\<close>

fun waits :: "call list \<Rightarrow> nat list" where
  "waits [] = []"
| "waits (Msleep ms # cs) = ms # waits cs"
| "waits (c # cs) = waits cs"

text \<open>The calls that touch a given line, and those that touch the backlight.\<close>

fun on_line :: "gpio_desc \<Rightarrow> call \<Rightarrow> bool" where
  "on_line g (GpiodSetValue g' v) = (g' = g)"
| "on_line g c = False"

fun on_backlight :: "call \<Rightarrow> bool" where
  "on_backlight (BacklightUpdateStatus b) = True"
| "on_backlight c = False"

text \<open>
  The state a caller can observe. The driver stores one boolean and nothing else: the
  flag set means the panel is marked enabled. \<open>Faulted\<close> is a name of the specification
  that no value of the flag stands for.
\<close>

datatype PanelState = Inactive | Active | Faulted

definition panel_state :: "panel_ls037v7dw06 \<Rightarrow> PanelState" where
  "panel_state p = (if enabled p then Active else Inactive)"

subsection \<open>Concrete panels and kernels\<close>

text \<open>A kernel whose every call succeeds, and one that fails the call number \<open>n\<close> with code \<open>e\<close>.\<close>

definition all_ok :: kernel where
  "all_ok n = 0"

definition fail_at :: "nat \<Rightarrow> int \<Rightarrow> kernel" where
  "fail_at n e k = (if k = n then e else 0)"

text \<open>
  The panel as the probe function leaves it before the first enable: flag clear, all lines
  low, nothing called yet; the backlight of the example has a maximum brightness of 255.
\<close>

definition probed :: panel_ls037v7dw06 where
  "probed = \<lparr>enabled = False, resb_gpio = False, clk_gpio = False, i2ciso_gpio = False,
     backlight = \<lparr>props_brightness = 0, props_max_brightness = 255,
                  props_power = 4, props_state = 0\<rparr>,
     calls = []\<rparr>"

text \<open>The panel after a first enable in which every call succeeded.\<close>

definition brought_up :: panel_ls037v7dw06 where
  "brought_up = snd (sharp_ls_enable all_ok probed)"

section \<open>What one call does\<close>

text \<open>
  Both functions are described completely by the codes the kernel returns at the
  positions of their fallible calls: the code returned, the calls added, and each field
  of the structure afterwards.
\<close>

lemmas kernel_call_defs =
  gpiod_set_value_cansleep_def msleep_def regulator_enable_def regulator_disable_def
  i2c_smbus_write_byte_data_def backlight_update_status_def

lemmas opcode_defs =
  LS037V7DW06_SLEEP_OFF_def LS037V7DW06_SLEEP_ON_def LS037V7DW06_DISP_OFF_def
  LS037V7DW06_DISP_ON_def

lemma call_offsets:
  "n + 2 = Suc (Suc n)"
  "n + 3 = Suc (Suc (Suc n))"
  "n + 5 = Suc (Suc (Suc (Suc (Suc n))))"
  "n + 6 = Suc (Suc (Suc (Suc (Suc (Suc n)))))"
  "n + 8 = Suc (Suc (Suc (Suc (Suc (Suc (Suc (Suc n)))))))"
  "n + 9 = Suc (Suc (Suc (Suc (Suc (Suc (Suc (Suc (Suc n))))))))"
  by simp_all

lemma enable_ret:
  "fst (sharp_ls_enable K p) =
     (let n = length (calls p)
      in if K (n + 2) \<noteq> 0 then K (n + 2)
         else if K (n + 6) \<noteq> 0 then K (n + 6)
         else K (n + 8))"
  by (simp add: sharp_ls_enable_def kernel_call_defs Let_def call_offsets cong del: if_weak_cong)

lemma enable_new_calls:
  "new_calls p (snd (sharp_ls_enable K p)) =
     (let n = length (calls p);
          pre = [GpiodSetValue Resb False, GpiodSetValue I2ciso False, RegulatorEnable (K (n + 2))]
      in if K (n + 2) \<noteq> 0 then pre
      else
        let mid = pre @ [Msleep 10, GpiodSetValue Resb True, Msleep 1,
                         I2cWriteByteData LS037V7DW06_SLEEP_ON 0 (K (n + 6))]
        in if K (n + 6) \<noteq> 0 then mid
        else
          let late = mid @ [Msleep 100, I2cWriteByteData LS037V7DW06_DISP_ON 0 (K (n + 8))]
          in if K (n + 8) \<noteq> 0 then late
          else late @ [GpiodSetValue Clk True,
                 BacklightUpdateStatus ((backlight p)
                   \<lparr>props_state := props_state (backlight p) AND NOT BL_CORE_FBBLANK,
                    props_power := FB_BLANK_UNBLANK,
                    props_brightness := props_max_brightness (backlight p)\<rparr>)])"
  by (simp add: sharp_ls_enable_def kernel_call_defs new_calls_def Let_def call_offsets cong del: if_weak_cong)

lemma enable_enabled:
  "enabled (snd (sharp_ls_enable K p)) = (if fst (sharp_ls_enable K p) = 0 then True else enabled p)"
  by (simp add: sharp_ls_enable_def kernel_call_defs Let_def call_offsets cong del: if_weak_cong)

lemma enable_clk:
  "clk_gpio (snd (sharp_ls_enable K p)) = (if fst (sharp_ls_enable K p) = 0 then True else clk_gpio p)"
  by (simp add: sharp_ls_enable_def kernel_call_defs Let_def call_offsets cong del: if_weak_cong)

lemma enable_backlight:
  "backlight (snd (sharp_ls_enable K p)) =
     (if fst (sharp_ls_enable K p) = 0
      then (backlight p)
             \<lparr>props_state := props_state (backlight p) AND NOT BL_CORE_FBBLANK,
              props_power := FB_BLANK_UNBLANK,
              props_brightness := props_max_brightness (backlight p)\<rparr>
      else backlight p)"
  by (simp add: sharp_ls_enable_def kernel_call_defs Let_def call_offsets cong del: if_weak_cong)

lemma enable_i2ciso: "i2ciso_gpio (snd (sharp_ls_enable K p)) = False"
  by (simp add: sharp_ls_enable_def kernel_call_defs Let_def call_offsets cong del: if_weak_cong)

lemma enable_flag_free:
  "fst (sharp_ls_enable K (p\<lparr>enabled := b\<rparr>)) = fst (sharp_ls_enable K p)"
  "resources (snd (sharp_ls_enable K (p\<lparr>enabled := b\<rparr>))) = resources (snd (sharp_ls_enable K p))"
  by (simp_all add: sharp_ls_enable_def kernel_call_defs resources_def Let_def call_offsets
       cong del: if_weak_cong)

lemma enable_from_set: "enabled (snd (sharp_ls_enable K (p\<lparr>enabled := True\<rparr>)))"
  by (simp add: enable_enabled)

text \<open>The same for \<^verbatim>\<open>sharp_ls_disable\<close>.\<close>

lemma disable_ret:
  "fst (sharp_ls_disable K p) =
     (let n = length (calls p)
      in if K (n + 3) \<noteq> 0 then K (n + 3)
         else if K (n + 5) \<noteq> 0 then K (n + 5)
         else K (n + 9))"
  by (simp add: sharp_ls_disable_def kernel_call_defs Let_def call_offsets cong del: if_weak_cong)

lemma disable_new_calls:
  "new_calls p (snd (sharp_ls_disable K p)) =
     (let n = length (calls p);
          pre = [BacklightUpdateStatus ((backlight p)
                   \<lparr>props_power := FB_BLANK_POWERDOWN,
                    props_state := props_state (backlight p) OR BL_CORE_FBBLANK,
                    props_brightness := 0\<rparr>),
                 GpiodSetValue Clk False, Msleep 1,
                 I2cWriteByteData LS037V7DW06_DISP_OFF 0 (K (n + 3))]
      in if K (n + 3) \<noteq> 0 then pre
      else
        let mid = pre @ [Msleep 20, I2cWriteByteData LS037V7DW06_SLEEP_OFF 0 (K (n + 5))]
        in if K (n + 5) \<noteq> 0 then mid
        else mid @ [Msleep 100, GpiodSetValue Resb False, Msleep 1,
                    RegulatorDisable (K (n + 9))])"
  by (simp add: sharp_ls_disable_def kernel_call_defs new_calls_def Let_def call_offsets cong del: if_weak_cong)

lemma disable_i2ciso: "i2ciso_gpio (snd (sharp_ls_disable K p)) = i2ciso_gpio p"
  by (simp add: sharp_ls_disable_def kernel_call_defs Let_def call_offsets cong del: if_weak_cong)

lemma disable_clk: "clk_gpio (snd (sharp_ls_disable K p)) = False"
  by (simp add: sharp_ls_disable_def kernel_call_defs Let_def call_offsets cong del: if_weak_cong)

lemma disable_backlight:
  "backlight (snd (sharp_ls_disable K p)) =
     (backlight p)\<lparr>props_power := FB_BLANK_POWERDOWN,
                   props_state := props_state (backlight p) OR BL_CORE_FBBLANK,
                   props_brightness := 0\<rparr>"
  by (simp add: sharp_ls_disable_def kernel_call_defs Let_def call_offsets cong del: if_weak_cong)

lemma disable_flag_free:
  "fst (sharp_ls_disable K (p\<lparr>enabled := b\<rparr>)) = fst (sharp_ls_disable K p)"
  "resources (snd (sharp_ls_disable K (p\<lparr>enabled := b\<rparr>))) = resources (snd (sharp_ls_disable K p))"
  by (simp_all add: sharp_ls_disable_def kernel_call_defs resources_def Let_def call_offsets
       cong del: if_weak_cong)

lemma disable_from_clear: "\<not> enabled (snd (sharp_ls_disable K (p\<lparr>enabled := False\<rparr>)))"
  by (simp add: sharp_ls_disable_def kernel_call_defs Let_def cong del: if_weak_cong)

lemma probed_calls: "calls probed = []"
  by (simp add: probed_def)

lemma or_and_same: "(x OR m) AND m = (m :: 32 word)"
  by (simp add: bit_eq_iff bit_and_iff bit_or_iff)

section \<open>Evaluation on concrete runs\<close>

text \<open>
  The runs used as examples below, evaluated in full: a first enable and the disable after
  it with every call succeeding, an enable with the regulator, the first write or the
  second write failing with code \<open>-5\<close>, a disable of a panel that was never enabled, and
  an enable of a panel that is enabled already.
\<close>

lemma eval_enable_ok:
  "sharp_ls_enable all_ok probed =
     (0, \<lparr>enabled = True, resb_gpio = True, clk_gpio = True, i2ciso_gpio = False,
          backlight = \<lparr>props_brightness = 255, props_max_brightness = 255,
                       props_power = 0, props_state = 0\<rparr>,
          calls = [GpiodSetValue Resb False, GpiodSetValue I2ciso False, RegulatorEnable 0,
                   Msleep 10, GpiodSetValue Resb True, Msleep 1, I2cWriteByteData 0x11 0 0,
                   Msleep 100, I2cWriteByteData 0x29 0 0, GpiodSetValue Clk True,
                   BacklightUpdateStatus \<lparr>props_brightness = 255, props_max_brightness = 255,
                                          props_power = 0, props_state = 0\<rparr>]\<rparr>)"
  by (simp add: sharp_ls_enable_def kernel_call_defs opcode_defs all_ok_def probed_def
      BL_CORE_FBBLANK_def FB_BLANK_UNBLANK_def Let_def)

lemma brought_up_eq:
  "brought_up =
     \<lparr>enabled = True, resb_gpio = True, clk_gpio = True, i2ciso_gpio = False,
      backlight = \<lparr>props_brightness = 255, props_max_brightness = 255,
                   props_power = 0, props_state = 0\<rparr>,
      calls = [GpiodSetValue Resb False, GpiodSetValue I2ciso False, RegulatorEnable 0,
               Msleep 10, GpiodSetValue Resb True, Msleep 1, I2cWriteByteData 0x11 0 0,
               Msleep 100, I2cWriteByteData 0x29 0 0, GpiodSetValue Clk True,
               BacklightUpdateStatus \<lparr>props_brightness = 255, props_max_brightness = 255,
                                      props_power = 0, props_state = 0\<rparr>]\<rparr>"
  by (simp add: brought_up_def eval_enable_ok)

lemma eval_disable_ok:
  "sharp_ls_disable all_ok brought_up =
     (0, \<lparr>enabled = True, resb_gpio = False, clk_gpio = False, i2ciso_gpio = False,
          backlight = \<lparr>props_brightness = 0, props_max_brightness = 255,
                       props_power = 4, props_state = 2\<rparr>,
          calls = calls brought_up @
                  [BacklightUpdateStatus \<lparr>props_brightness = 0, props_max_brightness = 255,
                                          props_power = 4, props_state = 2\<rparr>,
                   GpiodSetValue Clk False, Msleep 1, I2cWriteByteData 0x28 0 0, Msleep 20,
                   I2cWriteByteData 0x10 0 0, Msleep 100, GpiodSetValue Resb False, Msleep 1,
                   RegulatorDisable 0]\<rparr>)"
  by (simp add: brought_up_eq sharp_ls_disable_def kernel_call_defs opcode_defs all_ok_def
      BL_CORE_FBBLANK_def FB_BLANK_POWERDOWN_def Let_def)

lemma eval_enable_rail_fails:
  "sharp_ls_enable (fail_at 2 (-5)) probed =
     (-5, probed\<lparr>calls := [GpiodSetValue Resb False, GpiodSetValue I2ciso False,
                            RegulatorEnable (-5)]\<rparr>)"
  by (simp add: sharp_ls_enable_def kernel_call_defs fail_at_def probed_def Let_def)

lemma eval_enable_sleep_write_fails:
  "sharp_ls_enable (fail_at 6 (-5)) probed =
     (-5, probed\<lparr>resb_gpio := True,
                 calls := [GpiodSetValue Resb False, GpiodSetValue I2ciso False,
                           RegulatorEnable 0, Msleep 10, GpiodSetValue Resb True, Msleep 1,
                           I2cWriteByteData 0x11 0 (-5)]\<rparr>)"
  by (simp add: sharp_ls_enable_def kernel_call_defs opcode_defs fail_at_def probed_def Let_def)

lemma eval_enable_display_write_fails:
  "sharp_ls_enable (fail_at 8 (-5)) probed =
     (-5, probed\<lparr>resb_gpio := True,
                 calls := [GpiodSetValue Resb False, GpiodSetValue I2ciso False,
                           RegulatorEnable 0, Msleep 10, GpiodSetValue Resb True, Msleep 1,
                           I2cWriteByteData 0x11 0 0, Msleep 100,
                           I2cWriteByteData 0x29 0 (-5)]\<rparr>)"
  by (simp add: sharp_ls_enable_def kernel_call_defs opcode_defs fail_at_def probed_def Let_def)

lemma eval_disable_probed:
  "sharp_ls_disable all_ok probed =
     (0, probed\<lparr>backlight := \<lparr>props_brightness = 0, props_max_brightness = 255,
                       props_power = 4, props_state = 2\<rparr>,
          calls := [BacklightUpdateStatus \<lparr>props_brightness = 0, props_max_brightness = 255,
                                          props_power = 4, props_state = 2\<rparr>,
                   GpiodSetValue Clk False, Msleep 1, I2cWriteByteData 0x28 0 0, Msleep 20,
                   I2cWriteByteData 0x10 0 0, Msleep 100, GpiodSetValue Resb False, Msleep 1,
                   RegulatorDisable 0]\<rparr>)"
  by (simp add: probed_def sharp_ls_disable_def kernel_call_defs opcode_defs all_ok_def
      BL_CORE_FBBLANK_def FB_BLANK_POWERDOWN_def Let_def)

lemma eval_enable_again:
  "fst (sharp_ls_enable all_ok brought_up) = 0"
  "new_calls brought_up (snd (sharp_ls_enable all_ok brought_up)) =
     [GpiodSetValue Resb False, GpiodSetValue I2ciso False, RegulatorEnable 0,
      Msleep 10, GpiodSetValue Resb True, Msleep 1, I2cWriteByteData 0x11 0 0,
      Msleep 100, I2cWriteByteData 0x29 0 0, GpiodSetValue Clk True,
      BacklightUpdateStatus \<lparr>props_brightness = 255, props_max_brightness = 255,
                             props_power = 0, props_state = 0\<rparr>]"
  by (simp_all add: enable_ret enable_new_calls all_ok_def opcode_defs brought_up_eq
       BL_CORE_FBBLANK_def FB_BLANK_UNBLANK_def Let_def)

section \<open>The claims\<close>

subsection \<open>C1: the first register write of an enable\<close>

text \<open>
  Claim C1, as the code has it. In every enable that returns 0 the register addresses
  written over the bus are \<open>0x11\<close> and then \<open>0x29\<close>: the first write carries
  \<^verbatim>\<open>LS037V7DW06_SLEEP_ON\<close>, which the driver defines as \<open>0x11\<close>, not \<open>0x10\<close>.
\<close>

theorem activate_register_writes:
  "fst (sharp_ls_enable K p) = 0 \<Longrightarrow>
   i2c_commands (new_calls p (snd (sharp_ls_enable K p))) = [0x11, 0x29] \<and>
   hd (i2c_commands (new_calls p (snd (sharp_ls_enable K p)))) = 0x11"
  by (simp add: enable_ret enable_new_calls opcode_defs Let_def split: if_splits)

theorem activate_register_writes_witness:
  "fst (sharp_ls_enable all_ok probed) = 0 \<and>
   i2c_commands (new_calls probed (snd (sharp_ls_enable all_ok probed))) = [0x11, 0x29] \<and>
   hd (i2c_commands (new_calls probed (snd (sharp_ls_enable all_ok probed)))) = 0x11"
proof (rule conjI)
  show h: "fst (sharp_ls_enable all_ok probed) = 0"
    by (simp add: eval_enable_ok)
  show "i2c_commands (new_calls probed (snd (sharp_ls_enable all_ok probed))) = [0x11, 0x29] \<and>
        hd (i2c_commands (new_calls probed (snd (sharp_ls_enable all_ok probed)))) = 0x11"
    by (rule activate_register_writes [OF h])
qed

text \<open>
  The first enable of the probed panel succeeds and its first register address is not
  \<open>0x10\<close>.
\<close>

theorem activate_first_write_counterexample:
  "fst (sharp_ls_enable all_ok probed) = 0 \<and>
   hd (i2c_commands (new_calls probed (snd (sharp_ls_enable all_ok probed)))) \<noteq> 0x10"
  by (simp add: eval_enable_ok new_calls_def probed_calls)

subsection \<open>C2: the register writes of a disable\<close>

text \<open>
  Claim C2, as the code has it. In every disable that returns 0 exactly two register
  writes occur, to the addresses \<open>0x28\<close> and then \<open>0x10\<close>: the second write carries
  \<^verbatim>\<open>LS037V7DW06_SLEEP_OFF\<close>, which the driver defines as \<open>0x10\<close>, not \<open>0x11\<close>.
\<close>

theorem deactivate_register_writes:
  "fst (sharp_ls_disable K p) = 0 \<Longrightarrow>
   i2c_commands (new_calls p (snd (sharp_ls_disable K p))) = [0x28, 0x10]"
  by (simp add: disable_ret disable_new_calls opcode_defs Let_def split: if_splits)

theorem deactivate_register_writes_witness:
  "fst (sharp_ls_disable all_ok brought_up) = 0 \<and>
   i2c_commands (new_calls brought_up (snd (sharp_ls_disable all_ok brought_up))) = [0x28, 0x10]"
proof (rule conjI)
  show h: "fst (sharp_ls_disable all_ok brought_up) = 0"
    by (simp add: eval_disable_ok)
  show "i2c_commands (new_calls brought_up (snd (sharp_ls_disable all_ok brought_up))) = [0x28, 0x10]"
    by (rule deactivate_register_writes [OF h])
qed

text \<open>
  The disable of the panel brought up before succeeds and writes \<open>0x28\<close> and \<open>0x10\<close>,
  which is not the pair \<open>0x28\<close>, \<open>0x11\<close>.
\<close>

theorem deactivate_writes_counterexample:
  "fst (sharp_ls_disable all_ok brought_up) = 0 \<and>
   i2c_commands (new_calls brought_up (snd (sharp_ls_disable all_ok brought_up))) = [0x28, 0x10] \<and>
   i2c_commands (new_calls brought_up (snd (sharp_ls_disable all_ok brought_up))) \<noteq> [0x28, 0x11]"
  by (simp add: eval_disable_ok new_calls_def)

subsection \<open>C3: the state after enable and disable\<close>

text \<open>
  Claim C3 asks that a successful enable followed by a successful disable leaves the
  state inactive. \<^verbatim>\<open>sharp_ls_enable\<close> sets \<^verbatim>\<open>panel->enabled\<close> as its last step;
  \<^verbatim>\<open>sharp_ls_disable\<close> never writes the flag. On the probed panel, with every call
  succeeding, both functions return 0 and the flag is still set afterwards.
\<close>

theorem deactivate_leaves_flag_set:
  "\<not> enabled probed \<and>
   fst (sharp_ls_enable all_ok probed) = 0 \<and>
   fst (sharp_ls_disable all_ok (snd (sharp_ls_enable all_ok probed))) = 0 \<and>
   enabled (snd (sharp_ls_disable all_ok (snd (sharp_ls_enable all_ok probed)))) \<and>
   panel_state (snd (sharp_ls_disable all_ok (snd (sharp_ls_enable all_ok probed)))) = Active"
proof -
  have up: "snd (sharp_ls_enable all_ok probed) = brought_up"
    by (simp add: brought_up_def)
  have "\<not> enabled probed"
    by (simp add: probed_def)
  moreover have "fst (sharp_ls_enable all_ok probed) = 0"
    by (simp add: eval_enable_ok)
  moreover have "fst (sharp_ls_disable all_ok brought_up) = 0"
    by (simp add: eval_disable_ok)
  moreover have "enabled (snd (sharp_ls_disable all_ok brought_up))"
    by (simp add: eval_disable_ok)
  moreover have "panel_state (snd (sharp_ls_disable all_ok brought_up)) = Active"
    by (simp add: eval_disable_ok panel_state_def)
  ultimately show ?thesis
    by (simp only: up simp_thms)
qed

subsection \<open>C4: calls from the wrong state\<close>

text \<open>
  Claim C4, as the code has it. Neither function looks at \<^verbatim>\<open>panel->enabled\<close>: with the flag
  set or clear at entry, a call returns the same code, makes the same kernel calls and
  leaves the same lines and backlight properties, so no call is turned away for the state it
  starts in. What remains of the claim is the state: an enable entered with the flag set
  leaves it set, and a disable entered with the flag clear leaves it clear.
\<close>

theorem no_state_precondition:
  "fst (sharp_ls_enable K (p\<lparr>enabled := b\<rparr>)) = fst (sharp_ls_enable K p) \<and>
   resources (snd (sharp_ls_enable K (p\<lparr>enabled := b\<rparr>))) =
     resources (snd (sharp_ls_enable K p)) \<and>
   fst (sharp_ls_disable K (p\<lparr>enabled := b\<rparr>)) = fst (sharp_ls_disable K p) \<and>
   resources (snd (sharp_ls_disable K (p\<lparr>enabled := b\<rparr>))) =
     resources (snd (sharp_ls_disable K p)) \<and>
   enabled (snd (sharp_ls_enable K (p\<lparr>enabled := True\<rparr>))) \<and>
   \<not> enabled (snd (sharp_ls_disable K (p\<lparr>enabled := False\<rparr>)))"
proof (intro conjI)
  show "fst (sharp_ls_enable K (p\<lparr>enabled := b\<rparr>)) = fst (sharp_ls_enable K p)"
    by (rule enable_flag_free)
  show "resources (snd (sharp_ls_enable K (p\<lparr>enabled := b\<rparr>))) =
     resources (snd (sharp_ls_enable K p))"
    by (rule enable_flag_free)
  show "fst (sharp_ls_disable K (p\<lparr>enabled := b\<rparr>)) = fst (sharp_ls_disable K p)"
    by (rule disable_flag_free)
  show "resources (snd (sharp_ls_disable K (p\<lparr>enabled := b\<rparr>))) =
     resources (snd (sharp_ls_disable K p))"
    by (rule disable_flag_free)
  show "enabled (snd (sharp_ls_enable K (p\<lparr>enabled := True\<rparr>)))"
    by (rule enable_from_set)
  show "\<not> enabled (snd (sharp_ls_disable K (p\<lparr>enabled := False\<rparr>)))"
    by (rule disable_from_clear)
qed

text \<open>
  An enable of a panel that is enabled already returns 0 and makes its kernel calls; so
  does a disable of a panel that was never enabled, which also changes the backlight
  properties.
\<close>

theorem precondition_counterexample:
  "enabled brought_up \<and>
   fst (sharp_ls_enable all_ok brought_up) = 0 \<and>
   new_calls brought_up (snd (sharp_ls_enable all_ok brought_up)) \<noteq> [] \<and>
   \<not> enabled probed \<and>
   fst (sharp_ls_disable all_ok probed) = 0 \<and>
   new_calls probed (snd (sharp_ls_disable all_ok probed)) \<noteq> [] \<and>
   backlight (snd (sharp_ls_disable all_ok probed)) \<noteq> backlight probed"
proof -
  have "enabled brought_up"
    by (simp add: brought_up_eq)
  moreover have "new_calls brought_up (snd (sharp_ls_enable all_ok brought_up)) \<noteq> []"
    by (simp add: eval_enable_again)
  moreover have "\<not> enabled probed"
    by (simp add: probed_def)
  moreover have "new_calls probed (snd (sharp_ls_disable all_ok probed)) \<noteq> []"
    by (simp add: eval_disable_probed new_calls_def probed_calls)
  moreover have "backlight (snd (sharp_ls_disable all_ok probed)) \<noteq> backlight probed"
    by (simp add: eval_disable_probed) (simp add: probed_def)
  ultimately show ?thesis
    by (simp add: eval_enable_again eval_disable_probed)
qed

subsection \<open>C5: the regulator fails during enable\<close>

text \<open>
  Claim C5, as the code has it. When \<^verbatim>\<open>regulator_enable\<close> returns a nonzero code in an
  enable, the enable returns that code, the flag \<^verbatim>\<open>enabled\<close> is what it was at entry, the
  call has made the two line writes and the failed regulator call and nothing more, and so
  no register write is issued in it. The driver has no faulted state to enter.
\<close>

theorem rail_failure_aborts:
  "RegulatorEnable r \<in> set (new_calls p (snd (sharp_ls_enable K p))) \<Longrightarrow> r \<noteq> 0 \<Longrightarrow>
   fst (sharp_ls_enable K p) = r \<and>
   enabled (snd (sharp_ls_enable K p)) = enabled p \<and>
   new_calls p (snd (sharp_ls_enable K p)) =
     [GpiodSetValue Resb False, GpiodSetValue I2ciso False, RegulatorEnable r] \<and>
   i2c_commands (new_calls p (snd (sharp_ls_enable K p))) = []"
  by (simp add: enable_ret enable_new_calls enable_enabled Let_def split: if_splits)

theorem rail_failure_aborts_witness:
  "RegulatorEnable (-5) \<in> set (new_calls probed (snd (sharp_ls_enable (fail_at 2 (-5)) probed))) \<and>
   (-5 :: int) \<noteq> 0 \<and>
   fst (sharp_ls_enable (fail_at 2 (-5)) probed) = -5 \<and>
   enabled (snd (sharp_ls_enable (fail_at 2 (-5)) probed)) = enabled probed \<and>
   new_calls probed (snd (sharp_ls_enable (fail_at 2 (-5)) probed)) =
     [GpiodSetValue Resb False, GpiodSetValue I2ciso False, RegulatorEnable (-5)] \<and>
   i2c_commands (new_calls probed (snd (sharp_ls_enable (fail_at 2 (-5)) probed))) = []"
proof -
  have h1: "RegulatorEnable (-5) \<in> set (new_calls probed (snd (sharp_ls_enable (fail_at 2 (-5)) probed)))"
    by (simp add: eval_enable_rail_fails new_calls_def) (simp add: probed_def)
  have h2: "(-5 :: int) \<noteq> 0"
    by simp
  from rail_failure_aborts [OF h1 h2] h1 h2 show ?thesis
    by blast
qed

text \<open>
  With the regulator failing on the probed panel, the enable returns the error after
  three calls and the state read from the flag is inactive, as before the call.
\<close>

theorem rail_failure_counterexample:
  "fst (sharp_ls_enable (fail_at 2 (-5)) probed) = -5 \<and>
   new_calls probed (snd (sharp_ls_enable (fail_at 2 (-5)) probed)) =
     [GpiodSetValue Resb False, GpiodSetValue I2ciso False, RegulatorEnable (-5)] \<and>
   enabled (snd (sharp_ls_enable (fail_at 2 (-5)) probed)) = enabled probed \<and>
   panel_state (snd (sharp_ls_enable (fail_at 2 (-5)) probed)) = Inactive \<and>
   panel_state (snd (sharp_ls_enable (fail_at 2 (-5)) probed)) \<noteq> Faulted"
  by (simp add: eval_enable_rail_fails new_calls_def panel_state_def) (simp add: probed_def)

subsection \<open>C6: the first register write fails during enable\<close>

text \<open>
  Claim C6, as the code has it. When the write of \<^verbatim>\<open>LS037V7DW06_SLEEP_ON\<close> returns a
  nonzero code in an enable, the enable returns that code, the flag \<^verbatim>\<open>enabled\<close> is what it
  was at entry, the call ends with the failed write, the clock line and the backlight
  properties are unchanged, and the call contains no write to the clock line and no
  backlight update.
\<close>

theorem sleep_write_failure_aborts:
  "I2cWriteByteData LS037V7DW06_SLEEP_ON v r \<in> set (new_calls p (snd (sharp_ls_enable K p))) \<Longrightarrow>
   r \<noteq> 0 \<Longrightarrow>
   fst (sharp_ls_enable K p) = r \<and>
   enabled (snd (sharp_ls_enable K p)) = enabled p \<and>
   new_calls p (snd (sharp_ls_enable K p)) =
     [GpiodSetValue Resb False, GpiodSetValue I2ciso False, RegulatorEnable 0, Msleep 10,
      GpiodSetValue Resb True, Msleep 1, I2cWriteByteData LS037V7DW06_SLEEP_ON 0 r] \<and>
   clk_gpio (snd (sharp_ls_enable K p)) = clk_gpio p \<and>
   backlight (snd (sharp_ls_enable K p)) = backlight p \<and>
   filter (on_line Clk) (new_calls p (snd (sharp_ls_enable K p))) = [] \<and>
   filter on_backlight (new_calls p (snd (sharp_ls_enable K p))) = []"
  by (simp add: enable_ret enable_new_calls enable_enabled enable_clk enable_backlight
      opcode_defs Let_def split: if_splits)

theorem sleep_write_failure_aborts_witness:
  "I2cWriteByteData LS037V7DW06_SLEEP_ON 0 (-5)
     \<in> set (new_calls probed (snd (sharp_ls_enable (fail_at 6 (-5)) probed))) \<and>
   (-5 :: int) \<noteq> 0 \<and>
   fst (sharp_ls_enable (fail_at 6 (-5)) probed) = -5 \<and>
   enabled (snd (sharp_ls_enable (fail_at 6 (-5)) probed)) = enabled probed \<and>
   new_calls probed (snd (sharp_ls_enable (fail_at 6 (-5)) probed)) =
     [GpiodSetValue Resb False, GpiodSetValue I2ciso False, RegulatorEnable 0, Msleep 10,
      GpiodSetValue Resb True, Msleep 1, I2cWriteByteData LS037V7DW06_SLEEP_ON 0 (-5)] \<and>
   clk_gpio (snd (sharp_ls_enable (fail_at 6 (-5)) probed)) = clk_gpio probed \<and>
   backlight (snd (sharp_ls_enable (fail_at 6 (-5)) probed)) = backlight probed \<and>
   filter (on_line Clk) (new_calls probed (snd (sharp_ls_enable (fail_at 6 (-5)) probed))) = [] \<and>
   filter on_backlight (new_calls probed (snd (sharp_ls_enable (fail_at 6 (-5)) probed))) = []"
proof -
  have h1: "I2cWriteByteData LS037V7DW06_SLEEP_ON 0 (-5)
     \<in> set (new_calls probed (snd (sharp_ls_enable (fail_at 6 (-5)) probed)))"
    by (simp add: eval_enable_sleep_write_fails new_calls_def opcode_defs) (simp add: probed_def)
  have h2: "(-5 :: int) \<noteq> 0"
    by simp
  from sleep_write_failure_aborts [OF h1 h2] h1 h2 show ?thesis
    by blast
qed

text \<open>
  With the first write failing on the probed panel, the enable returns the error after
  that one write and the state read from the flag is inactive, as before the call.
\<close>

theorem sleep_write_failure_counterexample:
  "fst (sharp_ls_enable (fail_at 6 (-5)) probed) = -5 \<and>
   i2c_commands (new_calls probed (snd (sharp_ls_enable (fail_at 6 (-5)) probed))) = [0x11] \<and>
   enabled (snd (sharp_ls_enable (fail_at 6 (-5)) probed)) = enabled probed \<and>
   panel_state (snd (sharp_ls_enable (fail_at 6 (-5)) probed)) = Inactive \<and>
   panel_state (snd (sharp_ls_enable (fail_at 6 (-5)) probed)) \<noteq> Faulted"
  by (simp add: eval_enable_sleep_write_fails new_calls_def panel_state_def) (simp add: probed_def)

subsection \<open>C7: order and waits of the two sequences\<close>

text \<open>
  Claim C7. An enable that returns 0 has made exactly these calls in this order: reset
  line low, isolation line low, regulator on, sleep 10 ms, reset line high, sleep 1 ms,
  write \<^verbatim>\<open>LS037V7DW06_SLEEP_ON\<close>, sleep 100 ms, write \<^verbatim>\<open>LS037V7DW06_DISP_ON\<close>, clock line high,
  backlight update with the blank bit cleared, power unblanked and brightness at its
  maximum. A disable that returns 0 has made exactly these: backlight update with power
  down, blank bit set and brightness 0, clock line low, sleep 1 ms, write
  \<^verbatim>\<open>LS037V7DW06_DISP_OFF\<close>, sleep 20 ms, write \<^verbatim>\<open>LS037V7DW06_SLEEP_OFF\<close>, sleep 100 ms, reset line
  low, sleep 1 ms, regulator off. The sleeps are at least 10, 1, 100 and 1, 20, 100, 1 ms.
\<close>

theorem sequences_in_order:
  "(fst (sharp_ls_enable K p) = 0 \<longrightarrow>
      new_calls p (snd (sharp_ls_enable K p)) =
        [GpiodSetValue Resb False,
         GpiodSetValue I2ciso False,
         RegulatorEnable 0,
         Msleep 10,
         GpiodSetValue Resb True,
         Msleep 1,
         I2cWriteByteData LS037V7DW06_SLEEP_ON 0 0,
         Msleep 100,
         I2cWriteByteData LS037V7DW06_DISP_ON 0 0,
         GpiodSetValue Clk True,
         BacklightUpdateStatus ((backlight p)
           \<lparr>props_state := props_state (backlight p) AND NOT BL_CORE_FBBLANK,
            props_power := FB_BLANK_UNBLANK,
            props_brightness := props_max_brightness (backlight p)\<rparr>)] \<and>
      list_all2 (\<le>) [10, 1, 100] (waits (new_calls p (snd (sharp_ls_enable K p))))) \<and>
   (fst (sharp_ls_disable K' p') = 0 \<longrightarrow>
      new_calls p' (snd (sharp_ls_disable K' p')) =
        [BacklightUpdateStatus ((backlight p')
           \<lparr>props_power := FB_BLANK_POWERDOWN,
            props_state := props_state (backlight p') OR BL_CORE_FBBLANK,
            props_brightness := 0\<rparr>),
         GpiodSetValue Clk False,
         Msleep 1,
         I2cWriteByteData LS037V7DW06_DISP_OFF 0 0,
         Msleep 20,
         I2cWriteByteData LS037V7DW06_SLEEP_OFF 0 0,
         Msleep 100,
         GpiodSetValue Resb False,
         Msleep 1,
         RegulatorDisable 0] \<and>
      list_all2 (\<le>) [1, 20, 100, 1] (waits (new_calls p' (snd (sharp_ls_disable K' p')))))"
proof (intro conjI impI)
  assume ok: "fst (sharp_ls_enable K p) = 0"
  then have codes: "K (length (calls p) + 2) = 0" "K (length (calls p) + 6) = 0"
    "K (length (calls p) + 8) = 0"
    by (simp_all add: enable_ret Let_def split: if_splits)
  then show seq: "new_calls p (snd (sharp_ls_enable K p)) =
        [GpiodSetValue Resb False,
         GpiodSetValue I2ciso False,
         RegulatorEnable 0,
         Msleep 10,
         GpiodSetValue Resb True,
         Msleep 1,
         I2cWriteByteData LS037V7DW06_SLEEP_ON 0 0,
         Msleep 100,
         I2cWriteByteData LS037V7DW06_DISP_ON 0 0,
         GpiodSetValue Clk True,
         BacklightUpdateStatus ((backlight p)
           \<lparr>props_state := props_state (backlight p) AND NOT BL_CORE_FBBLANK,
            props_power := FB_BLANK_UNBLANK,
            props_brightness := props_max_brightness (backlight p)\<rparr>)]"
    by (simp add: enable_new_calls Let_def)
  show "list_all2 (\<le>) [10, 1, 100] (waits (new_calls p (snd (sharp_ls_enable K p))))"
    by (simp add: seq)
next
  assume ok: "fst (sharp_ls_disable K' p') = 0"
  then have codes: "K' (length (calls p') + 3) = 0" "K' (length (calls p') + 5) = 0"
    "K' (length (calls p') + 9) = 0"
    by (simp_all add: disable_ret Let_def split: if_splits)
  then show seq: "new_calls p' (snd (sharp_ls_disable K' p')) =
        [BacklightUpdateStatus ((backlight p')
           \<lparr>props_power := FB_BLANK_POWERDOWN,
            props_state := props_state (backlight p') OR BL_CORE_FBBLANK,
            props_brightness := 0\<rparr>),
         GpiodSetValue Clk False,
         Msleep 1,
         I2cWriteByteData LS037V7DW06_DISP_OFF 0 0,
         Msleep 20,
         I2cWriteByteData LS037V7DW06_SLEEP_OFF 0 0,
         Msleep 100,
         GpiodSetValue Resb False,
         Msleep 1,
         RegulatorDisable 0]"
    by (simp add: disable_new_calls Let_def)
  show "list_all2 (\<le>) [1, 20, 100, 1] (waits (new_calls p' (snd (sharp_ls_disable K' p'))))"
    by (simp add: seq)
qed

theorem sequences_in_order_witness:
  "fst (sharp_ls_enable all_ok probed) = 0 \<and>
   fst (sharp_ls_disable all_ok brought_up) = 0 \<and>
   new_calls probed (snd (sharp_ls_enable all_ok probed)) =
     [GpiodSetValue Resb False, GpiodSetValue I2ciso False, RegulatorEnable 0, Msleep 10,
      GpiodSetValue Resb True, Msleep 1, I2cWriteByteData 0x11 0 0, Msleep 100,
      I2cWriteByteData 0x29 0 0, GpiodSetValue Clk True,
      BacklightUpdateStatus \<lparr>props_brightness = 255, props_max_brightness = 255,
                             props_power = 0, props_state = 0\<rparr>] \<and>
   waits (new_calls probed (snd (sharp_ls_enable all_ok probed))) = [10, 1, 100] \<and>
   new_calls brought_up (snd (sharp_ls_disable all_ok brought_up)) =
     [BacklightUpdateStatus \<lparr>props_brightness = 0, props_max_brightness = 255,
                             props_power = 4, props_state = 2\<rparr>,
      GpiodSetValue Clk False, Msleep 1, I2cWriteByteData 0x28 0 0, Msleep 20,
      I2cWriteByteData 0x10 0 0, Msleep 100, GpiodSetValue Resb False, Msleep 1,
      RegulatorDisable 0] \<and>
   waits (new_calls brought_up (snd (sharp_ls_disable all_ok brought_up))) = [1, 20, 100, 1]"
proof -
  have h1: "fst (sharp_ls_enable all_ok probed) = 0"
    by (simp add: eval_enable_ok)
  have h2: "fst (sharp_ls_disable all_ok brought_up) = 0"
    by (simp add: eval_disable_ok)
  note run = sequences_in_order [of all_ok probed all_ok brought_up]
  from run h1 have up:
    "new_calls probed (snd (sharp_ls_enable all_ok probed)) =
       [GpiodSetValue Resb False, GpiodSetValue I2ciso False, RegulatorEnable 0, Msleep 10,
        GpiodSetValue Resb True, Msleep 1, I2cWriteByteData 0x11 0 0, Msleep 100,
        I2cWriteByteData 0x29 0 0, GpiodSetValue Clk True,
        BacklightUpdateStatus \<lparr>props_brightness = 255, props_max_brightness = 255,
                               props_power = 0, props_state = 0\<rparr>]"
    by (simp add: opcode_defs BL_CORE_FBBLANK_def FB_BLANK_UNBLANK_def probed_def)
  from run h2 have down:
    "new_calls brought_up (snd (sharp_ls_disable all_ok brought_up)) =
       [BacklightUpdateStatus \<lparr>props_brightness = 0, props_max_brightness = 255,
                               props_power = 4, props_state = 2\<rparr>,
        GpiodSetValue Clk False, Msleep 1, I2cWriteByteData 0x28 0 0, Msleep 20,
        I2cWriteByteData 0x10 0 0, Msleep 100, GpiodSetValue Resb False, Msleep 1,
        RegulatorDisable 0]"
    by (simp add: opcode_defs BL_CORE_FBBLANK_def FB_BLANK_POWERDOWN_def brought_up_eq)
  show ?thesis
    by (simp add: h1 h2 up down)
qed

subsection \<open>C8: the isolation line\<close>

text \<open>
  Claim C8. A disable, whatever it returns, leaves the isolation line at the level it had
  at entry and makes no call on that line; an enable, whatever it returns, leaves the line
  low, and so it is low after a disable that follows.
\<close>

theorem deactivate_keeps_isolation_line:
  "i2ciso_gpio (snd (sharp_ls_disable K p)) = i2ciso_gpio p \<and>
   filter (on_line I2ciso) (new_calls p (snd (sharp_ls_disable K p))) = [] \<and>
   i2ciso_gpio (snd (sharp_ls_enable K' p')) = False \<and>
   i2ciso_gpio (snd (sharp_ls_disable K (snd (sharp_ls_enable K' p')))) = False"
  by (simp add: disable_i2ciso enable_i2ciso disable_new_calls Let_def)

subsection \<open>C9: the flag after a failed enable\<close>

text \<open>
  Claim C9. An enable that returns a nonzero code leaves the flag \<^verbatim>\<open>enabled\<close> as it was at
  entry, so the state read from it is the state before the call; and an enable tried again
  from there, with every call succeeding, returns 0 and sets the flag.
\<close>

theorem failed_activate_keeps_flag:
  "fst (sharp_ls_enable K p) \<noteq> 0 \<Longrightarrow>
   enabled (snd (sharp_ls_enable K p)) = enabled p \<and>
   panel_state (snd (sharp_ls_enable K p)) = panel_state p \<and>
   fst (sharp_ls_enable all_ok (snd (sharp_ls_enable K p))) = 0 \<and>
   enabled (snd (sharp_ls_enable all_ok (snd (sharp_ls_enable K p))))"
  by (simp add: enable_enabled panel_state_def) (simp add: enable_ret all_ok_def)

theorem failed_activate_keeps_flag_witness:
  "fst (sharp_ls_enable (fail_at 8 (-5)) probed) \<noteq> 0 \<and>
   enabled (snd (sharp_ls_enable (fail_at 8 (-5)) probed)) = False \<and>
   panel_state (snd (sharp_ls_enable (fail_at 8 (-5)) probed)) = Inactive \<and>
   fst (sharp_ls_enable all_ok (snd (sharp_ls_enable (fail_at 8 (-5)) probed))) = 0 \<and>
   enabled (snd (sharp_ls_enable all_ok (snd (sharp_ls_enable (fail_at 8 (-5)) probed))))"
proof -
  have h: "fst (sharp_ls_enable (fail_at 8 (-5)) probed) \<noteq> 0"
    by (simp add: eval_enable_display_write_fails)
  have off: "enabled probed = False" "panel_state probed = Inactive"
    by (simp_all add: probed_def panel_state_def)
  from failed_activate_keeps_flag [OF h] h show ?thesis
    by (simp only: off simp_thms)
qed

subsection \<open>C10: what a disable does before it can fail\<close>

text \<open>
  Claim C10. After a disable, whatever it returns, the backlight properties have power
  down, the blank bit set and brightness 0, the clock line is low, and the first two calls
  of the disable are the backlight update with these properties and the write of the clock
  line: both come before the first call that can fail.
\<close>

theorem deactivate_backlight_and_clock_first:
  "props_power (backlight (snd (sharp_ls_disable K p))) = FB_BLANK_POWERDOWN \<and>
   props_state (backlight (snd (sharp_ls_disable K p))) AND BL_CORE_FBBLANK = BL_CORE_FBBLANK \<and>
   props_brightness (backlight (snd (sharp_ls_disable K p))) = 0 \<and>
   clk_gpio (snd (sharp_ls_disable K p)) = False \<and>
   take 2 (new_calls p (snd (sharp_ls_disable K p))) =
     [BacklightUpdateStatus (backlight (snd (sharp_ls_disable K p))), GpiodSetValue Clk False]"
  by (simp add: disable_backlight disable_clk disable_new_calls or_and_same Let_def)

end
